theory Spec2Isabelle
  imports Main "HOL-Library.AList"
begin

section \<open>Values, errors and dictionaries of the notebook\<close>

text \<open>
  The repository is one Jupyter notebook,
  \<^verbatim>\<open>Instruction Finetuning LLMs with QLoRA for RAG.ipynb\<close>. Its code cells are embedded
  below, cell by cell. Python raises are values of the type \<open>error\<close>; a computation that
  may raise returns \<open>error + 'a\<close> with \<open>Inl\<close> for the raise.

  Strings are \<open>char list\<close>s. The notebook only concatenates and compares strings, so
  the difference between Python code points and encoded bytes plays no part.
\<close>

datatype error =
    KeyError string         \<comment> \<open>a missing dictionary key or DataFrame column\<close>
  | NameError string        \<comment> \<open>a name that no executed cell has bound\<close>
  | TypeError               \<comment> \<open>an operand of the wrong kind\<close>
  | ValueError              \<comment> \<open>operands whose lengths do not agree\<close>
  | ExternalError string    \<comment> \<open>a failure reported by a third-party call (hub unreachable, ...)\<close>

text \<open>The values that occur in a dataset row or a DataFrame column.\<close>

datatype cell = Str string | Bool bool | PyNone

text \<open>
  \<open>f"{v}"\<close> formats \<open>v\<close> with an empty format specification, which is \<open>str(v)\<close> for
  the three kinds of value.
\<close>

fun py_format :: "cell \<Rightarrow> string" where
  "py_format (Str s) = s"
| "py_format (Bool b) = (if b then ''True'' else ''False'')"
| "py_format PyNone = ''None''"

text \<open>A \<open>Dict\<close> keyed by strings, and \<open>d[k]\<close> on it.\<close>

type_synonym sample = "string \<rightharpoonup> cell"

definition dict_getitem :: "sample \<Rightarrow> string \<Rightarrow> error + cell" where
  "dict_getitem d k = (case d k of None \<Rightarrow> Inl (KeyError k) | Some v \<Rightarrow> Inr v)"

section \<open>Cell 7: the prompt formatter\<close>

text \<open>
  \<^verbatim>\<open>
  def format_instruction(sample : Dict) -> str:
      """Combine a row to a single str"""
      return f"""### Context:
  {sample['context']}

  ### Question:
  Using only the context above, {sample['instruction']}

  ### Response:
  {sample['response']}
  """
  \<close>
  The replacement fields of the f-string are evaluated from left to right, so the first
  missing key is the one reported.
\<close>

definition format_instruction :: "sample \<Rightarrow> error + string" where
  "format_instruction sample =
     (case dict_getitem sample ''context'' of Inl e \<Rightarrow> Inl e | Inr c \<Rightarrow>
     (case dict_getitem sample ''instruction'' of Inl e \<Rightarrow> Inl e | Inr i \<Rightarrow>
     (case dict_getitem sample ''response'' of Inl e \<Rightarrow> Inl e | Inr r \<Rightarrow>
        Inr (''### Context:\<newline>'' @ py_format c @
             ''\<newline>\<newline>### Question:\<newline>Using only the context above, '' @ py_format i @
             ''\<newline>\<newline>### Response:\<newline>'' @ py_format r @ ''\<newline>''))))"

text \<open>
  The same body as data, to follow which names it reads: the parts of the f-string in
  order, each a literal or a replacement field \<open>{name['key']}\<close>.
\<close>

datatype fstring_part = Literal string | Subscript string string

definition format_instruction_body :: "fstring_part list" where
  "format_instruction_body =
     [Literal ''### Context:\<newline>'',
      Subscript ''sample'' ''context'',
      Literal ''\<newline>\<newline>### Question:\<newline>Using only the context above, '',
      Subscript ''sample'' ''instruction'',
      Literal ''\<newline>\<newline>### Response:\<newline>'',
      Subscript ''sample'' ''response'',
      Literal ''\<newline>'']"

text \<open>
  What a name can be bound to, and the frame a call runs in: the local names of the call
  and the global names of the notebook, which any cell may rebind between two calls.
  A name is looked up among the locals first and among the globals next.
\<close>

datatype pyvalue = Scalar cell | Dict sample

record frame =
  frame_locals :: "string \<rightharpoonup> pyvalue"
  frame_globals :: "string \<rightharpoonup> pyvalue"

definition load_name :: "frame \<Rightarrow> string \<Rightarrow> error + pyvalue" where
  "load_name fr n =
     (case frame_locals fr n of Some v \<Rightarrow> Inr v
      | None \<Rightarrow> (case frame_globals fr n of Some v \<Rightarrow> Inr v | None \<Rightarrow> Inl (NameError n)))"

text \<open>
  A replacement field loads the name, subscripts the value with the key (a string, a
  boolean and None cannot be subscripted with a string key) and formats the element.
  The parts are evaluated from left to right and joined; the first raise ends it.
\<close>

fun eval_part :: "frame \<Rightarrow> fstring_part \<Rightarrow> error + string" where
  "eval_part fr (Literal s) = Inr s"
| "eval_part fr (Subscript n k) =
     (case load_name fr n of Inl e \<Rightarrow> Inl e
      | Inr (Scalar c) \<Rightarrow> Inl TypeError
      | Inr (Dict d) \<Rightarrow>
          (case dict_getitem d k of Inl e \<Rightarrow> Inl e | Inr c \<Rightarrow> Inr (py_format c)))"

fun eval_fstring :: "frame \<Rightarrow> fstring_part list \<Rightarrow> error + string" where
  "eval_fstring fr [] = Inr []"
| "eval_fstring fr (p # ps) =
     (case eval_part fr p of Inl e \<Rightarrow> Inl e | Inr s \<Rightarrow>
     (case eval_fstring fr ps of Inl e \<Rightarrow> Inl e | Inr t \<Rightarrow> Inr (s @ t)))"

text \<open>
  A call \<open>format_instruction(sample)\<close> made while the global names of the notebook are
  \<open>globals\<close>: the argument is bound to the parameter in a new local frame and the body
  is evaluated there.
\<close>

definition call_format_instruction :: "(string \<rightharpoonup> pyvalue) \<Rightarrow> sample \<Rightarrow> error + string" where
  "call_format_instruction globals sample =
     eval_fstring \<lparr>frame_locals = [''sample'' \<mapsto> Dict sample], frame_globals = globals\<rparr>
       format_instruction_body"

section \<open>Cell 5: the dataset loader\<close>

text \<open>
  \<^verbatim>\<open>
  def load_modified_dataset():
      dataset = load_dataset("databricks/databricks-dolly-15k", split = "train")
      df = dataset.to_pandas()
      df['keep'] = True

      # Keep entries with correct answer as well
      df = df[(df['category'].isin(['closed_qa', 'information_extraction', 'open_qa'])) & df['keep']]

      return Dataset.from_pandas(
          df[['instruction', 'context', 'response']],
          preserve_index = False)
  \<close>
  \<open>load_dataset\<close> is a third-party call that reads from the network. Its outcome is a
  parameter of the model: an error, or the rows of the train split, which has the four
  string columns of the dolly-15k schema.
\<close>

record dolly_row =
  row_instruction :: string
  row_context :: string
  row_response :: string
  row_category :: string

text \<open>
  A pandas Series is a list of cells; a DataFrame is its number of rows and its columns
  in order, each a Series of that length.
\<close>

type_synonym series = "cell list"

record dataframe =
  nrows :: nat
  columns :: "(string \<times> series) list"

text \<open>A \<open>datasets.Dataset\<close>: its rows, each a dictionary with the columns in order.\<close>

type_synonym dataset = "(string \<times> cell) list list"

definition to_pandas :: "dolly_row list \<Rightarrow> dataframe" where
  "to_pandas ds =
     \<lparr>nrows = length ds,
      columns = [(''instruction'', map (\<lambda>r. Str (row_instruction r)) ds),
                 (''context'', map (\<lambda>r. Str (row_context r)) ds),
                 (''response'', map (\<lambda>r. Str (row_response r)) ds),
                 (''category'', map (\<lambda>r. Str (row_category r)) ds)]\<rparr>"

text \<open>
  \<open>df[k] = v\<close> with a scalar \<open>v\<close>: the scalar is broadcast over the rows; an existing
  column is overwritten in place, a new one is appended.
\<close>

definition setitem_scalar :: "dataframe \<Rightarrow> string \<Rightarrow> cell \<Rightarrow> dataframe" where
  "setitem_scalar df k v = df\<lparr>columns := AList.update k (replicate (nrows df) v) (columns df)\<rparr>"

text \<open>\<open>df[k]\<close> with a column name.\<close>

definition getitem_column :: "dataframe \<Rightarrow> string \<Rightarrow> error + series" where
  "getitem_column df k =
     (case map_of (columns df) k of None \<Rightarrow> Inl (KeyError k) | Some s \<Rightarrow> Inr s)"

text \<open>\<open>s.isin(values)\<close>: a boolean Series, true where the element is one of the values.\<close>

definition isin :: "series \<Rightarrow> cell list \<Rightarrow> series" where
  "isin s vals = map (\<lambda>c. Bool (c \<in> set vals)) s"

text \<open>\<open>a & b\<close> on two Series over the same index: elementwise, on booleans.\<close>

fun cell_and :: "cell \<Rightarrow> cell \<Rightarrow> error + cell" where
  "cell_and (Bool a) (Bool b) = Inr (Bool (a \<and> b))"
| "cell_and _ _ = Inl TypeError"

fun series_and :: "series \<Rightarrow> series \<Rightarrow> error + series" where
  "series_and [] [] = Inr []"
| "series_and (a # as) (b # bs) =
     (case cell_and a b of Inl e \<Rightarrow> Inl e | Inr c \<Rightarrow>
     (case series_and as bs of Inl e \<Rightarrow> Inl e | Inr cs \<Rightarrow> Inr (c # cs)))"
| "series_and _ _ = Inl ValueError"

text \<open>\<open>df[mask]\<close> with a boolean Series: the rows where the mask is true, in order.\<close>

fun mask_bools :: "series \<Rightarrow> error + bool list" where
  "mask_bools [] = Inr []"
| "mask_bools (Bool b # cs) =
     (case mask_bools cs of Inl e \<Rightarrow> Inl e | Inr bs \<Rightarrow> Inr (b # bs))"
| "mask_bools (_ # cs) = Inl TypeError"

definition take_mask :: "bool list \<Rightarrow> 'a list \<Rightarrow> 'a list" where
  "take_mask bs xs = map snd (filter fst (zip bs xs))"

definition getitem_mask :: "dataframe \<Rightarrow> series \<Rightarrow> error + dataframe" where
  "getitem_mask df msk =
     (case mask_bools msk of Inl e \<Rightarrow> Inl e | Inr bs \<Rightarrow>
        if length bs \<noteq> nrows df then Inl ValueError
        else Inr \<lparr>nrows = length (filter id bs),
                  columns = map (\<lambda>(k, s). (k, take_mask bs s)) (columns df)\<rparr>)"

text \<open>\<open>df[[k1, k2, ...]]\<close> with a list of column names: those columns, in the list's order.\<close>

fun select_columns :: "dataframe \<Rightarrow> string list \<Rightarrow> error + (string \<times> series) list" where
  "select_columns df [] = Inr []"
| "select_columns df (k # ks) =
     (case getitem_column df k of Inl e \<Rightarrow> Inl e | Inr s \<Rightarrow>
     (case select_columns df ks of Inl e \<Rightarrow> Inl e | Inr cols \<Rightarrow> Inr ((k, s) # cols)))"

definition getitem_columns :: "dataframe \<Rightarrow> string list \<Rightarrow> error + dataframe" where
  "getitem_columns df ks =
     (case select_columns df ks of Inl e \<Rightarrow> Inl e
      | Inr cols \<Rightarrow> Inr \<lparr>nrows = nrows df, columns = cols\<rparr>)"

text \<open>
  \<open>Dataset.from_pandas(df, preserve_index = False)\<close>: one row per DataFrame row, holding
  the DataFrame's columns and no index column.
\<close>

definition from_pandas :: "dataframe \<Rightarrow> dataset" where
  "from_pandas df = map (\<lambda>i. map (\<lambda>(k, s). (k, s ! i)) (columns df)) [0..<nrows df]"

definition load_modified_dataset :: "error + dolly_row list \<Rightarrow> error + dataset" where
  "load_modified_dataset load_dataset =
     (case load_dataset of Inl e \<Rightarrow> Inl e | Inr dataset \<Rightarrow>
     (let df = to_pandas dataset;
          df = setitem_scalar df ''keep'' (Bool True)
      in
     (case getitem_column df ''category'' of Inl e \<Rightarrow> Inl e | Inr category \<Rightarrow>
     (case getitem_column df ''keep'' of Inl e \<Rightarrow> Inl e | Inr keep \<Rightarrow>
     (case series_and
             (isin category [Str ''closed_qa'', Str ''information_extraction'', Str ''open_qa''])
             keep
      of Inl e \<Rightarrow> Inl e | Inr msk \<Rightarrow>
     (case getitem_mask df msk of Inl e \<Rightarrow> Inl e | Inr df \<Rightarrow>
     (case getitem_columns df [''instruction'', ''context'', ''response''] of Inl e \<Rightarrow> Inl e
      | Inr df \<Rightarrow> Inr (from_pandas df))))))))"

text \<open>
  The loader as the specification words it, for comparison with the one above: the
  rows are filtered by category membership alone, and no \<open>keep\<close> column takes part.
\<close>

definition load_by_category_alone :: "error + dolly_row list \<Rightarrow> error + dataset" where
  "load_by_category_alone load_dataset =
     (case load_dataset of Inl e \<Rightarrow> Inl e | Inr dataset \<Rightarrow>
     (let df = to_pandas dataset in
     (case getitem_column df ''category'' of Inl e \<Rightarrow> Inl e | Inr category \<Rightarrow>
     (case getitem_mask df
             (isin category [Str ''closed_qa'', Str ''information_extraction'', Str ''open_qa''])
      of Inl e \<Rightarrow> Inl e | Inr df \<Rightarrow>
     (case getitem_columns df [''instruction'', ''context'', ''response''] of Inl e \<Rightarrow> Inl e
      | Inr df \<Rightarrow> Inr (from_pandas df))))))"

text \<open>
  Two notions used to state what the loader returns: the allowed categories, and the
  Raw Record (the three kept fields) of a source row.
\<close>

definition allowed_categories :: "string set" where
  "allowed_categories = {''closed_qa'', ''information_extraction'', ''open_qa''}"

definition raw_record :: "dolly_row \<Rightarrow> (string \<times> cell) list" where
  "raw_record r =
     [(''instruction'', Str (row_instruction r)),
      (''context'', Str (row_context r)),
      (''response'', Str (row_response r))]"

section \<open>Cell 10: the quantization policy, the model and the tokenizer\<close>

text \<open>
  \<^verbatim>\<open>
  model_id = "mistralai/Mistral-7B-v0.1"
  is_peft = False

  bnb_config = BitsAndBytesConfig(
      load_in_4bit=True,
      bnb_4bit_use_double_quant=False,
      bnb_4bit_quant_type="nf4",
      bnb_4bit_compute_dtype=torch.bfloat16
  )
  \<close>
\<close>

datatype dtype = float16 | bfloat16 | float32

record BitsAndBytesConfig =
  load_in_4bit :: bool
  bnb_4bit_use_double_quant :: bool
  bnb_4bit_quant_type :: string
  bnb_4bit_compute_dtype :: dtype

definition model_id :: string where
  "model_id = ''mistralai/Mistral-7B-v0.1''"

definition is_peft :: bool where
  "is_peft = False"

definition bnb_config :: BitsAndBytesConfig where
  "bnb_config =
     \<lparr>load_in_4bit = True,
      bnb_4bit_use_double_quant = False,
      bnb_4bit_quant_type = ''nf4'',
      bnb_4bit_compute_dtype = bfloat16\<rparr>"

text \<open>
  The keyword arguments of \<open>from_pretrained\<close>; both branches of the cell pass the same
  four.
\<close>

record from_pretrained_kwargs =
  low_cpu_mem_usage :: bool
  torch_dtype :: dtype
  quantization_config :: BitsAndBytesConfig
  use_flash_attention_2 :: bool

definition model_kwargs :: from_pretrained_kwargs where
  "model_kwargs =
     \<lparr>low_cpu_mem_usage = True,
      torch_dtype = float16,
      quantization_config = bnb_config,
      use_flash_attention_2 = True\<rparr>"

text \<open>
  What the notebook sees of a loaded model: its linear projections (a weight matrix of
  \<open>out_features\<close> by \<open>in_features\<close> each, named as in its parent module), its other
  parameter tensors, and the one configuration attribute the cell assigns.
\<close>

record linear_layer =
  layer_name :: string
  in_features :: nat
  out_features :: nat
  weight_requires_grad :: bool

record parameter =
  param_name :: string
  numel :: nat
  requires_grad :: bool

record pretrained_model =
  linear_layers :: "linear_layer list"
  other_parameters :: "parameter list"
  pretraining_tp :: nat

text \<open>The three attributes of a tokenizer that the notebook reads or assigns.\<close>

record tokenizer =
  pad_token :: "string option"
  eos_token :: "string option"
  padding_side :: string

text \<open>
  A model with adapters: every linear projection with the low-rank pair attached to it,
  if any. \<open>lora_A\<close> and \<open>lora_B\<close> are the shapes (rows, columns) of the two matrices.
\<close>

record lora_layer =
  lora_A :: "nat \<times> nat"
  lora_B :: "nat \<times> nat"
  lora_requires_grad :: bool

record peft_model =
  peft_layers :: "(linear_layer \<times> lora_layer option) list"
  peft_other_parameters :: "parameter list"

text \<open>
  \<^verbatim>\<open>
  peft_config = LoraConfig(
      lora_alpha=16,
      lora_dropout=0.1,
      r=8,
      bias="none",
      task_type="CAUSAL_LM",
      target_modules=['v_proj', 'down_proj', 'up_proj', 'o_proj', 'q_proj', 'gate_proj', 'k_proj']
  )
  \<close>
  The field \<open>r\<close> is called \<open>lora_r\<close> here. \<open>lora_dropout\<close> is a floating-point
  probability that acts in the training forward pass only; it is left out.
\<close>

record LoraConfig =
  lora_alpha :: nat
  lora_r :: nat
  bias :: string
  task_type :: string
  target_modules :: "string list"

definition peft_config :: LoraConfig where
  "peft_config =
     \<lparr>lora_alpha = 16,
      lora_r = 8,
      bias = ''none'',
      task_type = ''CAUSAL_LM'',
      target_modules =
        [''v_proj'', ''down_proj'', ''up_proj'', ''o_proj'', ''q_proj'', ''gate_proj'', ''k_proj'']\<rparr>"

text \<open>
  The third-party calls of the notebook. Their code is not part of the repository; each
  is a parameter, with its outcome an error or a value. \<open>load_dataset\<close> stands for the
  call with the dolly-15k name and the train split.
\<close>

record externals =
  load_dataset :: "error + dolly_row list"
  AutoModelForCausalLM_from_pretrained ::
    "string \<Rightarrow> from_pretrained_kwargs \<Rightarrow> error + pretrained_model"
  AutoTokenizer_from_pretrained :: "string \<Rightarrow> error + tokenizer"
  prepare_model_for_kbit_training :: "pretrained_model \<Rightarrow> error + pretrained_model"
  mark_only_adapters_as_trainable :: "pretrained_model \<Rightarrow> error + peft_model"
  peft_get_peft_model :: "pretrained_model \<Rightarrow> LoraConfig \<Rightarrow> error + peft_model"

text \<open>
  \<^verbatim>\<open>
  if is_peft:
      model = AutoPeftModelForCausalLM.from_pretrained(model_id, low_cpu_mem_usage=True,
          torch_dtype=torch.float16, use_flash_attention_2=True, quantization_config = bnb_config)
  else:
      model = AutoModelForCausalLM.from_pretrained(model_id, low_cpu_mem_usage=True,
          torch_dtype=torch.float16, quantization_config = bnb_config, use_flash_attention_2=True)

  model.config.pretraining_tp = 1

  tokenizer = AutoTokenizer.from_pretrained(model_id)
  tokenizer.pad_token = tokenizer.eos_token
  tokenizer.padding_side = "right"
  \<close>
  No cell imports \<open>AutoPeftModelForCausalLM\<close>, so the first branch raises a NameError.
\<close>

definition provision_model :: "externals \<Rightarrow> error + pretrained_model \<times> tokenizer" where
  "provision_model ext =
     (case (if is_peft then Inl (NameError ''AutoPeftModelForCausalLM'')
            else AutoModelForCausalLM_from_pretrained ext model_id model_kwargs)
      of Inl e \<Rightarrow> Inl e | Inr model \<Rightarrow>
     (let model = model\<lparr>pretraining_tp := 1\<rparr> in
     (case AutoTokenizer_from_pretrained ext model_id of Inl e \<Rightarrow> Inl e | Inr tok \<Rightarrow>
     (let tok = tok\<lparr>pad_token := eos_token tok\<rparr>;
          tok = tok\<lparr>padding_side := ''right''\<rparr>
      in Inr (model, tok)))))"

section \<open>Cell 13: the adapter injector\<close>

text \<open>
  \<^verbatim>\<open>
  if is_peft:
      model = prepare_model_for_kbit_training(model)
      model._mark_only_adapters_as_trainable()
  else:
      peft_config = LoraConfig(...)
      model = prepare_model_for_kbit_training(model)
      model = get_peft_model(model, peft_config)
  \<close>
\<close>

definition inject_adapters :: "externals \<Rightarrow> pretrained_model \<Rightarrow> error + peft_model" where
  "inject_adapters ext model =
     (if is_peft then
        (case prepare_model_for_kbit_training ext model of Inl e \<Rightarrow> Inl e
         | Inr model \<Rightarrow> mark_only_adapters_as_trainable ext model)
      else
        (case prepare_model_for_kbit_training ext model of Inl e \<Rightarrow> Inl e
         | Inr model \<Rightarrow> peft_get_peft_model ext model peft_config))"

section \<open>Cell 15: the trainer\<close>

text \<open>
  \<^verbatim>\<open>
  max_seq_length = 2048
  trainer = SFTTrainer(
      model=model,
      train_dataset=dataset,
      tokenizer=tokenizer,
      max_seq_length=max_seq_length,
      packing=True,
      formatting_func=format_instruction,
      args=args,
  )
  \<close>
  The trainer is the record of what it is constructed from. The hyperparameters
  \<open>args\<close> are constants that no property below depends on; they are left out.
\<close>

record SFTTrainer =
  trainer_model :: peft_model
  train_dataset :: dataset
  trainer_tokenizer :: tokenizer
  trainer_max_seq_length :: nat
  packing :: bool
  formatting_func :: "sample \<Rightarrow> error + string"

definition max_seq_length :: nat where
  "max_seq_length = 2048"

text \<open>The cells in the order of the notebook, up to the construction of the trainer.\<close>

definition run_notebook :: "externals \<Rightarrow> error + SFTTrainer" where
  "run_notebook ext =
     (case load_modified_dataset (load_dataset ext) of Inl e \<Rightarrow> Inl e | Inr dataset \<Rightarrow>
     (case provision_model ext of Inl e \<Rightarrow> Inl e | Inr (model, tok) \<Rightarrow>
     (case inject_adapters ext model of Inl e \<Rightarrow> Inl e | Inr model \<Rightarrow>
        Inr \<lparr>trainer_model = model,
             train_dataset = dataset,
             trainer_tokenizer = tok,
             trainer_max_seq_length = max_seq_length,
             packing = True,
             formatting_func = format_instruction\<rparr>)))"

section \<open>Example inputs\<close>

text \<open>
  Concrete inputs on which the properties below are evaluated: two rows of the dataset
  (one of an allowed category, one not), a tokenizer that comes from the hub with no
  padding token and left padding, a model of the seven projections of a decoder block
  and an output head, a model with one adapter, and third-party calls that succeed and
  return them.
\<close>

definition example_rows :: "dolly_row list" where
  "example_rows =
     [\<lparr>row_instruction = ''When was the bridge opened?'',
       row_context = ''The bridge was opened in 1932.'',
       row_response = ''In 1932.'',
       row_category = ''closed_qa''\<rparr>,
      \<lparr>row_instruction = ''Give me ideas for a rainy day.'',
       row_context = [],
       row_response = ''Read a book.'',
       row_category = ''brainstorming''\<rparr>]"

definition example_tokenizer :: tokenizer where
  "example_tokenizer = \<lparr>pad_token = None, eos_token = Some ''</s>'', padding_side = ''left''\<rparr>"

definition decoder_block_model :: pretrained_model where
  "decoder_block_model =
     \<lparr>linear_layers =
        [\<lparr>layer_name = ''q_proj'', in_features = 4096, out_features = 4096,
          weight_requires_grad = True\<rparr>,
         \<lparr>layer_name = ''k_proj'', in_features = 4096, out_features = 1024,
          weight_requires_grad = True\<rparr>,
         \<lparr>layer_name = ''v_proj'', in_features = 4096, out_features = 1024,
          weight_requires_grad = True\<rparr>,
         \<lparr>layer_name = ''o_proj'', in_features = 4096, out_features = 4096,
          weight_requires_grad = True\<rparr>,
         \<lparr>layer_name = ''gate_proj'', in_features = 4096, out_features = 14336,
          weight_requires_grad = True\<rparr>,
         \<lparr>layer_name = ''up_proj'', in_features = 4096, out_features = 14336,
          weight_requires_grad = True\<rparr>,
         \<lparr>layer_name = ''down_proj'', in_features = 14336, out_features = 4096,
          weight_requires_grad = True\<rparr>,
         \<lparr>layer_name = ''lm_head'', in_features = 4096, out_features = 32000,
          weight_requires_grad = True\<rparr>],
      other_parameters =
        [\<lparr>param_name = ''input_layernorm.weight'', numel = 4096, requires_grad = True\<rparr>],
      pretraining_tp = 2\<rparr>"

definition example_peft_model :: peft_model where
  "example_peft_model =
     \<lparr>peft_layers =
        [(\<lparr>layer_name = ''q_proj'', in_features = 4096, out_features = 4096,
           weight_requires_grad = False\<rparr>,
          Some \<lparr>lora_A = (8, 4096), lora_B = (4096, 8), lora_requires_grad = True\<rparr>)],
      peft_other_parameters = []\<rparr>"

definition example_externals :: externals where
  "example_externals =
     \<lparr>load_dataset = Inr example_rows,
      AutoModelForCausalLM_from_pretrained = (\<lambda>name kwargs. Inr decoder_block_model),
      AutoTokenizer_from_pretrained = (\<lambda>name. Inr example_tokenizer),
      prepare_model_for_kbit_training = (\<lambda>model. Inr model),
      mark_only_adapters_as_trainable = (\<lambda>model. Inl TypeError),
      peft_get_peft_model = (\<lambda>model cfg. Inr example_peft_model)\<rparr>"

section \<open>Properties of the prompt formatter\<close>

text \<open>
  Claim C1. For the record with instruction "summarize this", context "The sky is blue."
  and response "Sky: blue.", \<open>format_instruction\<close> returns exactly the text
  "### Context:\nThe sky is blue.\n\n### Question:\nUsing only the context above,
  summarize this\n\n### Response:\nSky: blue.\n", trailing newline included.
\<close>

theorem format_instruction_sky_example:
  "format_instruction
     [''instruction'' \<mapsto> Str ''summarize this'',
      ''context'' \<mapsto> Str ''The sky is blue.'',
      ''response'' \<mapsto> Str ''Sky: blue.'']
   = Inr ''### Context:\<newline>The sky is blue.\<newline>\<newline>### Question:\<newline>Using only the context above, summarize this\<newline>\<newline>### Response:\<newline>Sky: blue.\<newline>''"
  by (simp add: format_instruction_def dict_getitem_def)

text \<open>
  Claim C2. For every record that has the text fields context, instruction and response,
  of any length and possibly empty, the formatter succeeds and its output is the three
  literal headers "### Context:", "### Question:" and "### Response:" in that order with
  the context, the instruction and the response between them, each exactly as it is in
  the record: nothing is escaped, cut or checked.
\<close>

theorem format_instruction_template:
  assumes "sample ''context'' = Some (Str c)"
    and "sample ''instruction'' = Some (Str i)"
    and "sample ''response'' = Some (Str r)"
  shows "format_instruction sample =
           Inr (''### Context:'' @ ''\<newline>'' @ c @ ''\<newline>\<newline>''
                @ ''### Question:'' @ ''\<newline>Using only the context above, '' @ i
                @ ''\<newline>\<newline>''
                @ ''### Response:'' @ ''\<newline>'' @ r @ ''\<newline>'')"
  using assms by (simp add: format_instruction_def dict_getitem_def)

text \<open>
  The template at the first example row, as the loader hands it on: the three
  hypotheses hold there, and the text is the expected one.
\<close>

theorem format_instruction_template_witness:
  "format_instruction (map_of (raw_record (example_rows ! 0))) =
     Inr ''### Context:\<newline>The bridge was opened in 1932.\<newline>\<newline>### Question:\<newline>Using only the context above, When was the bridge opened?\<newline>\<newline>### Response:\<newline>In 1932.\<newline>''"
  using format_instruction_template [of "map_of (raw_record (example_rows ! 0))"
      "''The bridge was opened in 1932.''" "''When was the bridge opened?''" "''In 1932.''"]
  by (simp add: raw_record_def example_rows_def)

text \<open>
  Claim C4. The formatter is stateless and deterministic. Its body reads one name, its
  parameter, so a call gives the same text whatever the global names of the notebook
  are bound to at the time: two calls on the same record, and any number of calls with
  the globals changed at will in between, yield identical text. Of the record itself
  only the three fields context, instruction and response are read.
\<close>

theorem format_instruction_stateless:
  "call_format_instruction globals sample = format_instruction sample
   \<and> call_format_instruction globals sample = call_format_instruction globals' sample
   \<and> map (\<lambda>g. call_format_instruction g sample) states
       = replicate (length states) (format_instruction sample)
   \<and> format_instruction sample
       = format_instruction (sample |` {''context'', ''instruction'', ''response''})"
proof -
  have body: "call_format_instruction g sample = format_instruction sample" for g
    by (simp add: call_format_instruction_def format_instruction_body_def load_name_def
          format_instruction_def split: sum.splits)
  let ?read = "sample |` {''context'', ''instruction'', ''response''}"
  have "dict_getitem ?read ''context'' = dict_getitem sample ''context''"
    and "dict_getitem ?read ''instruction'' = dict_getitem sample ''instruction''"
    and "dict_getitem ?read ''response'' = dict_getitem sample ''response''"
    by (simp_all add: dict_getitem_def)
  then have fields: "format_instruction sample = format_instruction ?read"
    by (simp only: format_instruction_def)
  from body fields show ?thesis
    by (simp add: map_replicate_const)
qed

text \<open>
  Claim C10. For a record whose context is the empty string the formatter succeeds and
  puts the empty string in its place: the output begins
  "### Context:\n\n\n### Question:\n", all three headers are there, and there is no
  fallback text, no dropped section and no error. The same holds for an empty
  instruction and for an empty response.
\<close>

theorem format_instruction_empty_fields:
  "format_instruction [''instruction'' \<mapsto> Str i, ''context'' \<mapsto> Str [], ''response'' \<mapsto> Str r]
     = Inr (''### Context:\<newline>\<newline>\<newline>### Question:\<newline>Using only the context above, '' @ i
            @ ''\<newline>\<newline>### Response:\<newline>'' @ r @ ''\<newline>'')
   \<and> format_instruction [''instruction'' \<mapsto> Str [], ''context'' \<mapsto> Str c, ''response'' \<mapsto> Str r]
     = Inr (''### Context:\<newline>'' @ c
            @ ''\<newline>\<newline>### Question:\<newline>Using only the context above, ''
            @ ''\<newline>\<newline>### Response:\<newline>'' @ r @ ''\<newline>'')
   \<and> format_instruction [''instruction'' \<mapsto> Str i, ''context'' \<mapsto> Str c, ''response'' \<mapsto> Str []]
     = Inr (''### Context:\<newline>'' @ c
            @ ''\<newline>\<newline>### Question:\<newline>Using only the context above, '' @ i
            @ ''\<newline>\<newline>### Response:\<newline>'' @ ''\<newline>'')"
  by (simp add: format_instruction_def dict_getitem_def)

section \<open>Properties of the dataset loader\<close>

text \<open>The steps of the loader, one lemma each, on a predicate \<open>p\<close> over the source rows.\<close>

lemma series_and_keep:
  "series_and (map (\<lambda>x. Bool (p x)) xs) (replicate (length xs) (Bool True))
   = Inr (map (\<lambda>x. Bool (p x)) xs)"
  by (induction xs) simp_all

lemma mask_bools_map: "mask_bools (map (\<lambda>x. Bool (p x)) xs) = Inr (map p xs)"
  by (induction xs) simp_all

lemma take_mask_map: "take_mask (map p xs) (map f xs) = map f (filter p xs)"
  by (induction xs) (simp_all add: take_mask_def)

lemma count_true_map: "length (filter id (map p xs)) = length (filter p xs)"
  by (induction xs) simp_all

lemma isin_category:
  "isin (map (\<lambda>r. Str (row_category r)) ds)
        [Str ''closed_qa'', Str ''information_extraction'', Str ''open_qa'']
   = map (\<lambda>r. Bool (row_category r \<in> allowed_categories)) ds"
  by (simp add: isin_def allowed_categories_def)

lemma getitem_mask_with_keep:
  "getitem_mask (setitem_scalar (to_pandas ds) ''keep'' (Bool True)) (map (\<lambda>r. Bool (p r)) ds)
   = Inr \<lparr>nrows = length (filter p ds),
           columns =
             [(''instruction'', map (\<lambda>r. Str (row_instruction r)) (filter p ds)),
              (''context'', map (\<lambda>r. Str (row_context r)) (filter p ds)),
              (''response'', map (\<lambda>r. Str (row_response r)) (filter p ds)),
              (''category'', map (\<lambda>r. Str (row_category r)) (filter p ds)),
              (''keep'', take_mask (map p ds) (replicate (length ds) (Bool True)))]\<rparr>"
  by (simp add: getitem_mask_def mask_bools_map setitem_scalar_def to_pandas_def
        take_mask_map count_true_map)

lemma getitem_mask_without_keep:
  "getitem_mask (to_pandas ds) (map (\<lambda>r. Bool (p r)) ds)
   = Inr \<lparr>nrows = length (filter p ds),
           columns =
             [(''instruction'', map (\<lambda>r. Str (row_instruction r)) (filter p ds)),
              (''context'', map (\<lambda>r. Str (row_context r)) (filter p ds)),
              (''response'', map (\<lambda>r. Str (row_response r)) (filter p ds)),
              (''category'', map (\<lambda>r. Str (row_category r)) (filter p ds))]\<rparr>"
  by (simp add: getitem_mask_def mask_bools_map to_pandas_def take_mask_map count_true_map)

lemma three_of_five_columns:
  "getitem_columns
     \<lparr>nrows = n,
      columns = [(''instruction'', a), (''context'', b), (''response'', c),
                 (''category'', d), (''keep'', e)]\<rparr>
     [''instruction'', ''context'', ''response'']
   = Inr \<lparr>nrows = n, columns = [(''instruction'', a), (''context'', b), (''response'', c)]\<rparr>"
  by (simp add: getitem_columns_def getitem_column_def)

lemma three_of_four_columns:
  "getitem_columns
     \<lparr>nrows = n,
      columns = [(''instruction'', a), (''context'', b), (''response'', c), (''category'', d)]\<rparr>
     [''instruction'', ''context'', ''response'']
   = Inr \<lparr>nrows = n, columns = [(''instruction'', a), (''context'', b), (''response'', c)]\<rparr>"
  by (simp add: getitem_columns_def getitem_column_def)

lemma rows_of_three_columns:
  "map (\<lambda>i. [(a, map f xs ! i), (b, map g xs ! i), (c, map h xs ! i)]) [0..<length xs]
   = map (\<lambda>x. [(a, f x), (b, g x), (c, h x)]) xs"
  by (rule nth_equalityI) simp_all

lemma from_pandas_rows:
  "from_pandas
     \<lparr>nrows = length xs,
      columns = [(''instruction'', map (\<lambda>r. Str (row_instruction r)) xs),
                 (''context'', map (\<lambda>r. Str (row_context r)) xs),
                 (''response'', map (\<lambda>r. Str (row_response r)) xs)]\<rparr>
   = map raw_record xs"
  unfolding from_pandas_def raw_record_def
  by (simp add: rows_of_three_columns)

text \<open>
  The loader never raises on rows that were loaded: it returns the Raw Records of the
  rows with an allowed category, in the order of the source.
\<close>

lemma load_modified_dataset_rows:
  "load_modified_dataset (Inr ds)
   = Inr (map raw_record (filter (\<lambda>r. row_category r \<in> allowed_categories) ds))"
proof -
  let ?df = "setitem_scalar (to_pandas ds) ''keep'' (Bool True)"
  have category: "getitem_column ?df ''category'' = Inr (map (\<lambda>r. Str (row_category r)) ds)"
    by (simp add: getitem_column_def setitem_scalar_def to_pandas_def)
  have keep: "getitem_column ?df ''keep'' = Inr (replicate (length ds) (Bool True))"
    by (simp add: getitem_column_def setitem_scalar_def to_pandas_def)
  show ?thesis
    unfolding load_modified_dataset_def Let_def
    by (simp add: category keep isin_category series_and_keep getitem_mask_with_keep
          three_of_five_columns from_pandas_rows)
qed

lemma load_by_category_alone_rows:
  "load_by_category_alone (Inr ds)
   = Inr (map raw_record (filter (\<lambda>r. row_category r \<in> allowed_categories) ds))"
proof -
  have category:
    "getitem_column (to_pandas ds) ''category'' = Inr (map (\<lambda>r. Str (row_category r)) ds)"
    by (simp add: getitem_column_def to_pandas_def)
  show ?thesis
    unfolding load_by_category_alone_def Let_def
    by (simp add: category isin_category getitem_mask_without_keep three_of_four_columns
          from_pandas_rows)
qed

text \<open>A failure of the third-party \<open>load_dataset\<close> is the failure of the loader.\<close>

lemma load_modified_dataset_unreachable: "load_modified_dataset (Inl e) = Inl e"
  by (simp add: load_modified_dataset_def)

text \<open>
  Claim C3. For every set of loaded rows the loader returns, without raising, the rows
  whose category is one of closed_qa, information_extraction and open_qa, and no others:
  every row with such a category is in the output, every output row comes from a row
  with such a category, and every output row carries exactly the three fields
  instruction, context and response.
\<close>

theorem load_modified_dataset_filters:
  "\<exists>out. load_modified_dataset (Inr ds) = Inr out
     \<and> out = map raw_record (filter (\<lambda>r. row_category r \<in> allowed_categories) ds)
     \<and> (\<forall>r \<in> set ds. row_category r \<in> allowed_categories \<longrightarrow> raw_record r \<in> set out)
     \<and> (\<forall>row \<in> set out.
           \<exists>r \<in> set ds. row_category r \<in> allowed_categories \<and> row = raw_record r)
     \<and> (\<forall>row \<in> set out. map fst row = [''instruction'', ''context'', ''response''])"
  by (auto simp add: load_modified_dataset_rows raw_record_def)

text \<open>
  On the two example rows: the first has an allowed category and is returned with its
  three fields, the second has not and is dropped.
\<close>

theorem load_modified_dataset_filters_witness:
  "example_rows ! 0 \<in> set example_rows
   \<and> row_category (example_rows ! 0) \<in> allowed_categories
   \<and> row_category (example_rows ! 1) \<notin> allowed_categories
   \<and> load_modified_dataset (Inr example_rows) =
       Inr [[(''instruction'', Str ''When was the bridge opened?''),
             (''context'', Str ''The bridge was opened in 1932.''),
             (''response'', Str ''In 1932.'')]]"
  using load_modified_dataset_filters [of example_rows]
  by (auto simp add: example_rows_def allowed_categories_def raw_record_def)

text \<open>
  Claim C9. The \<open>keep\<close> flag is inert. The column is set to True for every row before
  the filter, so the conjunction of the category test with it is the category test
  itself, and the loader returns the same result, for every input, as the loader that
  filters by category membership alone.
\<close>

theorem keep_flag_is_inert:
  "load_modified_dataset ld = load_by_category_alone ld
   \<and> getitem_column (setitem_scalar (to_pandas ds) ''keep'' (Bool True)) ''keep''
       = Inr (replicate (length ds) (Bool True))
   \<and> series_and (isin s vals) (replicate (length s) (Bool True)) = Inr (isin s vals)"
proof (intro conjI)
  show "load_modified_dataset ld = load_by_category_alone ld"
  proof (cases ld)
    case (Inl e)
    then show ?thesis
      by (simp add: load_modified_dataset_def load_by_category_alone_def)
  next
    case (Inr rows)
    then show ?thesis
      by (simp only: load_modified_dataset_rows load_by_category_alone_rows)
  qed
  show "getitem_column (setitem_scalar (to_pandas ds) ''keep'' (Bool True)) ''keep''
       = Inr (replicate (length ds) (Bool True))"
    by (simp add: getitem_column_def setitem_scalar_def to_pandas_def)
  show "series_and (isin s vals) (replicate (length s) (Bool True)) = Inr (isin s vals)"
    unfolding isin_def by (rule series_and_keep)
qed

section \<open>Properties of the model provisioner\<close>

text \<open>
  The cell returns exactly when both third-party loads do, and then with the loaded
  model and tokenizer changed by its three assignments only.
\<close>

lemma provision_model_returns:
  assumes "AutoModelForCausalLM_from_pretrained ext model_id model_kwargs = Inr loaded"
    and "AutoTokenizer_from_pretrained ext model_id = Inr t"
  shows "provision_model ext =
           Inr (loaded\<lparr>pretraining_tp := 1\<rparr>,
                t\<lparr>pad_token := eos_token t, padding_side := ''right''\<rparr>)"
  using assms by (simp add: provision_model_def is_peft_def)

lemma provision_model_InrD:
  assumes "provision_model ext = Inr (model, tok)"
  shows "\<exists>loaded t. AutoModelForCausalLM_from_pretrained ext model_id model_kwargs = Inr loaded
           \<and> AutoTokenizer_from_pretrained ext model_id = Inr t
           \<and> model = loaded\<lparr>pretraining_tp := 1\<rparr>
           \<and> tok = t\<lparr>pad_token := eos_token t, padding_side := ''right''\<rparr>"
  using assms
  by (auto simp add: provision_model_def is_peft_def Let_def split: sum.splits)

lemma provision_example:
  "provision_model example_externals =
     Inr (decoder_block_model\<lparr>pretraining_tp := 1\<rparr>,
          \<lparr>pad_token = Some ''</s>'', eos_token = Some ''</s>'', padding_side = ''right''\<rparr>)"
  by (simp add: provision_model_def is_peft_def example_externals_def example_tokenizer_def)

text \<open>
  Claim C5. On every run of the provisioner that does not fail, the tokenizer's padding
  token equals its end-of-sequence token and its padding side is "right".
\<close>

theorem provisioned_tokenizer_padding:
  assumes "provision_model ext = Inr (model, tok)"
  shows "pad_token tok = eos_token tok \<and> padding_side tok = ''right''"
  using provision_model_InrD [OF assms] by auto

text \<open>
  With the example calls the provisioner returns, and the tokenizer that came without a
  padding token and with left padding leaves it with both set.
\<close>

theorem provisioned_tokenizer_padding_witness:
  "pad_token example_tokenizer = None
   \<and> (\<exists>model tok. provision_model example_externals = Inr (model, tok)
         \<and> pad_token tok = Some ''</s>'' \<and> eos_token tok = Some ''</s>''
         \<and> padding_side tok = ''right'')"
  using provisioned_tokenizer_padding [OF provision_example] provision_example
  by (simp add: example_tokenizer_def)

text \<open>
  Claim C8. The model is loaded under the 4-bit normal-float policy: the model the
  provisioner returns is the one \<open>from_pretrained\<close> gave for keyword arguments whose
  quantization configuration enables 4-bit loading, has the quantization type "nf4",
  carries the double-quantization flag (set to False), and has the compute dtype
  bfloat16.
\<close>

theorem model_loaded_under_nf4_policy:
  assumes "provision_model ext = Inr (model, tok)"
  shows "(\<exists>loaded. AutoModelForCausalLM_from_pretrained ext model_id model_kwargs = Inr loaded
            \<and> model = loaded\<lparr>pretraining_tp := 1\<rparr>)
         \<and> quantization_config model_kwargs = bnb_config
         \<and> load_in_4bit bnb_config
         \<and> bnb_4bit_quant_type bnb_config = ''nf4''
         \<and> bnb_4bit_use_double_quant bnb_config = False
         \<and> bnb_4bit_compute_dtype bnb_config = bfloat16"
  using provision_model_InrD [OF assms] by (auto simp add: model_kwargs_def bnb_config_def)

text \<open>The same run of the example calls, read for the model and the policy it was loaded under.\<close>

theorem model_loaded_under_nf4_policy_witness:
  "\<exists>model tok. provision_model example_externals = Inr (model, tok)
     \<and> model = decoder_block_model\<lparr>pretraining_tp := 1\<rparr>
     \<and> bnb_4bit_quant_type (quantization_config model_kwargs) = ''nf4''
     \<and> load_in_4bit (quantization_config model_kwargs)"
  using model_loaded_under_nf4_policy [OF provision_example] provision_example
  by simp

text \<open>
  Claim C6. Left padding is excluded by construction: no run of the notebook that reaches
  the trainer hands it a tokenizer whose padding side is "left", whatever padding side
  the tokenizer had when it was loaded. The padding side of the trainer's tokenizer is
  always "right".
\<close>

theorem trainer_never_pads_left:
  assumes "run_notebook ext = Inr trainer"
  shows "padding_side (trainer_tokenizer trainer) = ''right''
         \<and> padding_side (trainer_tokenizer trainer) \<noteq> ''left''"
proof -
  from assms obtain model tok where p: "provision_model ext = Inr (model, tok)"
    and t: "trainer_tokenizer trainer = tok"
    by (auto simp add: run_notebook_def split: sum.splits)
  from provision_model_InrD [OF p] t show ?thesis by auto
qed

text \<open>
  The example tokenizer is loaded with left padding; the notebook reaches the trainer,
  and the trainer's tokenizer pads on the right.
\<close>

theorem trainer_never_pads_left_witness:
  "padding_side example_tokenizer = ''left''
   \<and> (\<exists>trainer. run_notebook example_externals = Inr trainer
         \<and> padding_side (trainer_tokenizer trainer) = ''right'')"
proof -
  have loaded: "load_dataset example_externals = Inr example_rows"
    by (simp add: example_externals_def)
  have injected: "inject_adapters example_externals model = Inr example_peft_model" for model
    by (simp add: inject_adapters_def is_peft_def example_externals_def)
  have "\<exists>trainer. run_notebook example_externals = Inr trainer"
    by (simp add: run_notebook_def loaded load_modified_dataset_rows provision_example injected)
  then obtain trainer where run: "run_notebook example_externals = Inr trainer" ..
  from trainer_never_pads_left [OF run] run show ?thesis
    by (auto simp add: example_tokenizer_def)
qed

end
